theory Spec2Isabelle
  imports Main "HOL-Library.Char_ord" "HOL-Library.List_Lexorder"
begin

section \<open>The definition model of main.go\<close>

text \<open>
  Go strings are byte sequences, compared byte by byte; \<open>string\<close> with the lexicographic
  order of \<open>List_Lexorder\<close> over the byte order of \<open>Char_ord\<close> is the same order.
\<close>

record FSMEventParams =
  ParamName :: string
  ParamType :: string

record FSMEventDefinition =
  Source :: "string list"
  Destination :: string
  Params :: "FSMEventParams list"

text \<open>
  \<open>Events\<close> is a Go \<open>map[string]FSMEventDefinition\<close>. The list holds the entries of the
  map in the order in which a \<open>range\<close> statement visits them in the run at hand. Go leaves
  that order open, so every arrangement of the same entries is a run of the program on the
  same definition. The keys of a map are pairwise different (\<open>EventsOK\<close>), hence
  \<open>len(definition.Events)\<close> is the length of the list.
\<close>

record FSMDefinition =
  Name :: string
  Imports :: "string list"
  PackageName :: string
  UseSLog :: bool
  Events :: "(string \<times> FSMEventDefinition) list"

type_synonym States = "string list"

definition EventsOK :: "FSMDefinition \<Rightarrow> bool" where
  "EventsOK defn = distinct (map fst (Events defn))"

text \<open>Two runs work on the same definition when only the traversal order differs.\<close>

definition same_definition :: "FSMDefinition \<Rightarrow> FSMDefinition \<Rightarrow> bool" where
  "same_definition d1 d2 =
     (Name d1 = Name d2 \<and> Imports d1 = Imports d2 \<and> PackageName d1 = PackageName d2 \<and>
      UseSLog d1 = UseSLog d2 \<and> set (Events d1) = set (Events d2) \<and>
      length (Events d1) = length (Events d2))"

section \<open>Library functions the source calls\<close>

definition newline :: char where
  "newline = CHR 0x0A"

definition dquote :: char where
  "dquote = CHR 0x22"

text \<open>
  \<open>strings.ToUpper\<close> on ASCII text subtracts \<open>'a' - 'A'\<close> from every byte between
  \<open>'a'\<close> and \<open>'z'\<close>. Bytes from 0x80 on are kept: the model covers names written in ASCII.
\<close>

definition upper_byte :: "char \<Rightarrow> char" where
  "upper_byte c =
     (if CHR ''a'' \<le> c \<and> c \<le> CHR ''z'' then char_of (of_char c - (32::nat)) else c)"

definition ToUpper :: "string \<Rightarrow> string" where
  "ToUpper s = map upper_byte s"

text \<open>\<open>strings.Join\<close>.\<close>

fun Join :: "string list \<Rightarrow> string \<Rightarrow> string" where
  "Join [] sep = []"
| "Join [x] sep = x"
| "Join (x # y # ys) sep = x @ sep @ Join (y # ys) sep"

text \<open>The verb \<open>%v\<close> on an \<open>int\<close> that is not negative: its decimal digits.\<close>

definition digit_char :: "nat \<Rightarrow> char" where
  "digit_char n = char_of (48 + n)"

fun show_nat :: "nat \<Rightarrow> string" where
  "show_nat n = (if n < 10 then [digit_char n] else show_nat (n div 10) @ [digit_char (n mod 10)])"

declare show_nat.simps [simp del]

definition show_int :: "int \<Rightarrow> string" where
  "show_int i = (if i < 0 then CHR ''-'' # show_nat (nat (- i)) else show_nat (nat i))"

text \<open>The operands of a formatting call (\<open>any\<close> in Go): the source passes strings and ints.\<close>

datatype fmt_arg = AStr string | AInt int

text \<open>
  The template constants \<open>HEADER\<close>, \<open>STATES_DEF\<close>, \<open>INIT\<close>, \<open>FSM_DEF\<close>, \<open>LOOKUP_DEF\<close> and
  \<open>EVENT\<close> are declared outside main.go. A template that is the format of \<open>fmt.Fprintf\<close>
  is taken as the function from the operand list to the text the call writes;
  \<open>LOOKUP_DEF\<close> is written as it is.
\<close>

record Templates =
  HEADER :: "fmt_arg list \<Rightarrow> string"
  STATES_DEF :: "fmt_arg list \<Rightarrow> string"
  INIT :: "fmt_arg list \<Rightarrow> string"
  FSM_DEF :: "fmt_arg list \<Rightarrow> string"
  LOOKUP_DEF :: string
  EVENT :: "fmt_arg list \<Rightarrow> string"

datatype error = IndexOutOfRange

section \<open>State derivation, mangling and width selection\<close>

text \<open>
  \<open>stateSet\<close> is a \<open>map[string]bool\<close> that only ever stores \<open>true\<close>: a set of names.
  \<open>maps.Keys\<close> yields its keys in an order Go leaves open and \<open>slices.Sort\<close> sorts them;
  whatever the order, the result is the sorted list of the set (\<open>sort_keys_any_order\<close>).
\<close>

definition GetStates_visit :: "string \<times> FSMEventDefinition \<Rightarrow> string set \<Rightarrow> string set" where
  "GetStates_visit entry stateSet =
     (case entry of
        (eventName, event) \<Rightarrow>
          fold (\<lambda>state stateSet. insert state stateSet) (Source event)
            (insert (Destination event) stateSet))"

definition GetStates_stateSet :: "FSMDefinition \<Rightarrow> string set" where
  "GetStates_stateSet defn = fold GetStates_visit (Events defn) {}"

definition GetStates :: "FSMDefinition \<Rightarrow> States" where
  "GetStates defn = sorted_list_of_set (GetStates_stateSet defn)"

definition GetStateName :: "string \<Rightarrow> string" where
  "GetStateName s = ''STATE_'' @ ToUpper s"

definition MaxUint8 :: int where "MaxUint8 = 255"
definition MaxUint16 :: int where "MaxUint16 = 65535"
definition MaxUint32 :: int where "MaxUint32 = 4294967295"
definition MaxInt :: int where "MaxInt = 9223372036854775807"

text \<open>
  \<open>count\<close> is a Go \<open>int\<close> of 64 bits (the comparison with \<open>math.MaxUint32\<close> does not
  compile for a narrower one). The function only compares, so the value is an \<open>int\<close> here,
  and lies between \<open>- MaxInt - 1\<close> and \<open>MaxInt\<close>. The three \<open>if\<close>s run one after the other.
\<close>

definition GetNeededUintSize :: "int \<Rightarrow> string" where
  "GetNeededUintSize count =
     (let stateEnumType = ''uint8'';
          stateEnumType = (if count > MaxUint8 then ''uint16'' else stateEnumType);
          stateEnumType = (if count > MaxUint16 then ''uint32'' else stateEnumType);
          stateEnumType = (if count > MaxUint32 then ''uint64'' else stateEnumType)
      in stateEnumType)"

section \<open>The generators\<close>

text \<open>
  A \<open>strings.Builder\<close> is the text written so far; every generator takes it and returns
  it extended.
\<close>

definition GenerateHeader :: "Templates \<Rightarrow> string \<Rightarrow> FSMDefinition \<Rightarrow> string" where
  "GenerateHeader T builder defn =
     (let builder = builder @ HEADER T [AStr (PackageName defn)];
          builder = (if UseSLog defn
                     then builder @ [dquote] @ ''log/slog'' @ [dquote, newline]
                     else builder);
          builder = fold (\<lambda>imprt builder. builder @ [dquote] @ imprt @ [dquote, newline])
                      (Imports defn) builder
      in builder @ '')'')"

text \<open>\<open>states[0]\<close> panics on the empty slice, before anything of the block is written.\<close>

definition GenerateStateDefinition ::
  "Templates \<Rightarrow> string \<Rightarrow> FSMDefinition \<Rightarrow> States \<Rightarrow> error + string" where
  "GenerateStateDefinition T builder defn states =
     (let stateEnumType = GetNeededUintSize (int (length states))
      in case states of
           [] \<Rightarrow> Inl IndexOutOfRange
         | state0 # rest \<Rightarrow>
             (let builder = builder @ STATES_DEF T [AStr stateEnumType, AStr (GetStateName state0)];
                  builder = fold (\<lambda>(i, state) builder.
                                    if i = (0::nat) then builder
                                    else builder @ GetStateName state @ [newline])
                              (enumerate 0 states) builder
              in Inr (builder @ [newline] @ '')'')))"

definition GenerateFSMDefinition_operands :: "FSMDefinition \<Rightarrow> fmt_arg list" where
  "GenerateFSMDefinition_operands defn =
     [AStr (Name defn), AStr (GetNeededUintSize (int (length (Events defn))))]"

definition GenerateFSMDefinition :: "Templates \<Rightarrow> string \<Rightarrow> FSMDefinition \<Rightarrow> string" where
  "GenerateFSMDefinition T builder defn =
     builder @ FSM_DEF T (GenerateFSMDefinition_operands defn)"

definition GenerateInitalizer :: "Templates \<Rightarrow> string \<Rightarrow> FSMDefinition \<Rightarrow> string" where
  "GenerateInitalizer T builder defn =
     builder @ INIT T [AStr (Name defn), AStr (Name defn),
                       AStr (GetNeededUintSize (int (length (Events defn))))]"

definition GenerateLookup :: "Templates \<Rightarrow> string \<Rightarrow> States \<Rightarrow> string" where
  "GenerateLookup T builder states =
     (let builder = builder @ LOOKUP_DEF T;
          builder = fold (\<lambda>(i, state) builder.
                            builder @ show_nat i @ '':'' @ [dquote] @ state @ [dquote] @ '','' @ [newline])
                      (enumerate 0 states) builder
      in builder @ ''}'')"

subsection \<open>One event\<close>

definition GenerateFSMEvent_validSrcs :: "FSMEventDefinition \<Rightarrow> string list" where
  "GenerateFSMEvent_validSrcs event =
     fold (\<lambda>src validSrcs. validSrcs @ [GetStateName src]) (Source event) []"

text \<open>The text \<open>lsb\<close> holds before the loop over the parameters.\<close>

definition GenerateFSMEvent_lsb0 :: "FSMDefinition \<Rightarrow> string" where
  "GenerateFSMEvent_lsb0 defn =
     (if UseSLog defn then ''slog.With('' @ [dquote] @ ''Start State'' @ [dquote] @ '', fsm.State,''
      else [])"

text \<open>
  The loop over \<open>event.Params\<close>: one pass of its body extends \<open>signature\<close>,
  \<open>callParams\<close> and \<open>lsb\<close>.
\<close>

definition GenerateFSMEvent_param ::
  "FSMEventParams \<Rightarrow> string list \<times> string list \<times> string \<Rightarrow>
   string list \<times> string list \<times> string" where
  "GenerateFSMEvent_param param acc =
     (case acc of
        (signature, callParams, lsb) \<Rightarrow>
          (signature @ [ParamName param @ '' '' @ ParamType param],
           callParams @ [ParamName param],
           lsb @ [dquote] @ ParamName param @ [dquote] @ '', '' @ ParamName param @ '',''))"

definition GenerateFSMEvent_params ::
  "FSMDefinition \<Rightarrow> FSMEventDefinition \<Rightarrow> string list \<times> string list \<times> string" where
  "GenerateFSMEvent_params defn event =
     fold GenerateFSMEvent_param (Params event) ([], [], GenerateFSMEvent_lsb0 defn)"

definition GenerateFSMEvent_logging ::
  "FSMDefinition \<Rightarrow> string \<Rightarrow> FSMEventDefinition \<Rightarrow> string" where
  "GenerateFSMEvent_logging defn eventName event =
     (case GenerateFSMEvent_params defn event of
        (signature, callParams, lsb) \<Rightarrow>
          if UseSLog defn
          then lsb @ '').Info('' @ [dquote] @ ''User has transitioned to '' @
               GetStateName eventName @ [dquote] @ '')''
          else [])"

definition GenerateFSMEvent_ti ::
  "FSMDefinition \<Rightarrow> int \<Rightarrow> string \<Rightarrow> FSMEventDefinition \<Rightarrow> fmt_arg list" where
  "GenerateFSMEvent_ti defn index eventName event =
     (case GenerateFSMEvent_params defn event of
        (signature, callParams, lsb) \<Rightarrow>
          [AStr eventName,
           AStr (Join signature '',''),
           AStr (Name defn),
           AStr eventName,
           AStr (Join signature '',''),
           AStr (Join (GenerateFSMEvent_validSrcs event) '',''),
           AStr eventName,
           AStr ''%v'',
           AStr (GenerateFSMEvent_logging defn eventName event),
           AInt index,
           AStr eventName,
           AStr (Join callParams '',''),
           AStr (GetStateName (Destination event)),
           AStr (Name defn),
           AStr eventName,
           AStr eventName,
           AInt index])"

definition GenerateFSMEvent ::
  "Templates \<Rightarrow> string \<Rightarrow> FSMDefinition \<Rightarrow> States \<Rightarrow> int \<Rightarrow> string \<Rightarrow> FSMEventDefinition \<Rightarrow> string" where
  "GenerateFSMEvent T builder defn states index eventName event =
     builder @ EVENT T (GenerateFSMEvent_ti defn index eventName event)"

subsection \<open>The whole document\<close>

text \<open>
  The loop of \<open>BuildText\<close> over the event map: one pass of its body on the counter
  \<open>i\<close> and the builder, and the loop from a start value of both.
\<close>

definition BuildText_visit ::
  "Templates \<Rightarrow> FSMDefinition \<Rightarrow> States \<Rightarrow> string \<times> FSMEventDefinition \<Rightarrow>
   int \<times> string \<Rightarrow> int \<times> string" where
  "BuildText_visit T defn states entry acc =
     (case (entry, acc) of
        ((eventName, event), (i, builder)) \<Rightarrow>
          (i + 1, GenerateFSMEvent T builder defn states i eventName event))"

definition BuildText_events ::
  "Templates \<Rightarrow> FSMDefinition \<Rightarrow> States \<Rightarrow> int \<times> string \<Rightarrow> int \<times> string" where
  "BuildText_events T defn states start = fold (BuildText_visit T defn states) (Events defn) start"

definition BuildText :: "Templates \<Rightarrow> FSMDefinition \<Rightarrow> error + string" where
  "BuildText T defn =
     (let states = GetStates defn;
          builder = GenerateHeader T [] defn
      in case GenerateStateDefinition T builder defn states of
           Inl e \<Rightarrow> Inl e
         | Inr builder \<Rightarrow>
             (let builder = GenerateInitalizer T builder defn;
                  builder = GenerateFSMDefinition T builder defn;
                  builder = GenerateLookup T builder states
              in Inr (snd (BuildText_events T defn states (0, builder)))))"

section \<open>The behaviour the specification describes\<close>

text \<open>The ladder of widths, narrowest first, each with the name of its type.\<close>

definition ladder :: "(nat \<times> string) list" where
  "ladder = [(8, ''uint8''), (16, ''uint16''), (32, ''uint32''), (64, ''uint64'')]"

text \<open>
  Width selection in the words of the specification: the first width of the ladder with
  \<open>2^width > n - 1\<close>.
\<close>

definition spec_NeededUintSize :: "int \<Rightarrow> string option" where
  "spec_NeededUintSize n = map_option snd (find (\<lambda>(w, name). (2::int) ^ w > n - 1) ladder)"





section \<open>Concrete definitions\<close>

text \<open>
  A stand-in for the template constants, to evaluate the generators on closed inputs: every
  format consists of one \<open>%v\<close> per operand and nothing else, and \<open>LOOKUP_DEF\<close> is empty.
\<close>

fun fmt_v :: "fmt_arg \<Rightarrow> string" where
  "fmt_v (AStr s) = s"
| "fmt_v (AInt i) = show_int i"

definition plain_templates :: Templates where
  "plain_templates =
     \<lparr>HEADER = (\<lambda>args. concat (map fmt_v args)),
      STATES_DEF = (\<lambda>args. concat (map fmt_v args)),
      INIT = (\<lambda>args. concat (map fmt_v args)),
      FSM_DEF = (\<lambda>args. concat (map fmt_v args)),
      LOOKUP_DEF = [],
      EVENT = (\<lambda>args. concat (map fmt_v args))\<rparr>"

text \<open>The scenario of the specification: \<open>start\<close> from idle to running, \<open>stop\<close> back.\<close>

definition start_event :: FSMEventDefinition where
  "start_event = \<lparr>Source = [''idle''], Destination = ''running'', Params = []\<rparr>"

definition stop_event :: FSMEventDefinition where
  "stop_event = \<lparr>Source = [''running''], Destination = ''idle'', Params = []\<rparr>"

definition door_def :: FSMDefinition where
  "door_def =
     \<lparr>Name = ''Door'', Imports = [], PackageName = ''door'', UseSLog = False,
      Events = [(''start'', start_event), (''stop'', stop_event)]\<rparr>"

text \<open>The same definition in a run whose \<open>range\<close> visits \<open>stop\<close> first.\<close>

definition door_def_stop_first :: FSMDefinition where
  "door_def_stop_first = door_def\<lparr>Events := [(''stop'', stop_event), (''start'', start_event)]\<rparr>"

definition no_events_def :: FSMDefinition where
  "no_events_def =
     \<lparr>Name = ''Door'', Imports = [], PackageName = ''door'', UseSLog = False, Events = []\<rparr>"

text \<open>The scenario with parameters and logging.\<close>

definition fail_event :: FSMEventDefinition where
  "fail_event =
     \<lparr>Source = [''running''], Destination = ''failed'',
      Params = [\<lparr>ParamName = ''retryCount'', ParamType = ''int''\<rparr>,
                \<lparr>ParamName = ''reason'', ParamType = ''string''\<rparr>]\<rparr>"

definition job_def :: FSMDefinition where
  "job_def =
     \<lparr>Name = ''Job'', Imports = [], PackageName = ''job'', UseSLog = True,
      Events = [(''fail'', fail_event)]\<rparr>"




text \<open>Two state names that differ only in letter case.\<close>

definition go_event :: FSMEventDefinition where
  "go_event = \<lparr>Source = [''idle''], Destination = ''busy'', Params = []\<rparr>"

definition reset_event :: FSMEventDefinition where
  "reset_event = \<lparr>Source = [''busy''], Destination = ''IDLE'', Params = []\<rparr>"

definition case_def :: FSMDefinition where
  "case_def =
     \<lparr>Name = ''Case'', Imports = [], PackageName = ''cases'', UseSLog = False,
      Events = [(''go'', go_event), (''reset'', reset_event)]\<rparr>"

section \<open>Facts about state derivation\<close>

lemma fold_insert_set: "fold (\<lambda>state stateSet. insert state stateSet) xs A = set xs \<union> A"
  by (induction xs arbitrary: A) auto

lemma GetStates_visit_eq:
  "GetStates_visit (n, e) S = insert (Destination e) (set (Source e)) \<union> S"
  by (simp add: GetStates_visit_def fold_insert_set)

lemma stateSet_fold:
  "fold GetStates_visit evs S
   = S \<union> (\<Union>(n, e) \<in> set evs. insert (Destination e) (set (Source e)))"
proof (induction evs arbitrary: S)
  case Nil
  then show ?case by simp
next
  case (Cons a evs)
  obtain n e where a: "a = (n, e)" by (cases a)
  show ?case
    unfolding a by (simp add: Cons.IH GetStates_visit_eq) blast
qed

lemma stateSet_eq:
  "GetStates_stateSet defn = (\<Union>(n, e) \<in> set (Events defn). insert (Destination e) (set (Source e)))"
  by (simp add: GetStates_stateSet_def stateSet_fold)

lemma finite_stateSet: "finite (GetStates_stateSet defn)"
  by (auto simp: stateSet_eq)

lemma set_GetStates: "set (GetStates defn) = GetStates_stateSet defn"
  by (simp add: GetStates_def finite_stateSet)


lemma sort_keys_any_order:
  "distinct ks \<Longrightarrow> set ks = GetStates_stateSet defn \<Longrightarrow> sort ks = GetStates defn"
  unfolding GetStates_def
  by (metis sorted_list_of_set_sort_remdups distinct_remdups_id)

lemma GetStates_order_independent:
  "set (Events d1) = set (Events d2) \<Longrightarrow> GetStates d1 = GetStates d2"
  by (simp add: GetStates_def stateSet_eq)

lemma GetStates_empty_iff: "GetStates defn = [] \<longleftrightarrow> Events defn = []"
proof
  assume "GetStates defn = []"
  then have "GetStates_stateSet defn = {}"
    using set_GetStates[of defn] by simp
  then show "Events defn = []"
    unfolding stateSet_eq by (cases "Events defn") auto
next
  assume "Events defn = []"
  then show "GetStates defn = []"
    by (simp add: GetStates_def GetStates_stateSet_def)
qed

lemma Events_no_events: "Events no_events_def = []"
  by (simp add: no_events_def_def)

lemma Events_door: "Events door_def = [(''start'', start_event), (''stop'', stop_event)]"
  by (simp add: door_def_def)

lemma GetStates_door: "GetStates door_def = [''idle'', ''running'']"
  by code_simp

lemma GetStates_case: "GetStates case_def = [''IDLE'', ''busy'', ''idle'']"
  by code_simp

section \<open>Width selection\<close>

lemmas width_defs = GetNeededUintSize_def MaxUint8_def MaxUint16_def MaxUint32_def

text \<open>
  Claim C2, as stated, fails at the count 256: the 8-bit width satisfies \<open>2^8 > 256 - 1\<close>
  and is what the specification's rule selects, while the code compares the count itself
  with \<open>math.MaxUint8\<close> and answers \<open>uint16\<close>.
\<close>

theorem GetNeededUintSize_not_spec_at_256:
  "GetNeededUintSize 256 = ''uint16'' \<and> spec_NeededUintSize 256 = Some ''uint8''"
  by (simp add: width_defs spec_NeededUintSize_def ladder_def)

text \<open>
  Claim C2, amended: for every count \<open>n\<close> of a Go \<open>int\<close> that is not negative,
  \<open>_GetNeededUintSize\<close> returns the name of the smallest width \<open>w\<close> of the ladder
  8, 16, 32, 64 with \<open>2^w > n\<close> (the type can hold the count itself), and the counts 0 and 1
  both select the 8-bit width.
\<close>

theorem GetNeededUintSize_smallest:
  assumes "0 \<le> n" and "n \<le> MaxInt"
  shows "(\<exists>w. (w, GetNeededUintSize n) \<in> set ladder \<and> (2::int) ^ w > n \<and>
             (\<forall>(w', name) \<in> set ladder. (2::int) ^ w' > n \<longrightarrow> w \<le> w')) \<and>
         GetNeededUintSize 0 = ''uint8'' \<and> GetNeededUintSize 1 = ''uint8''"
proof -
  consider "n \<le> 255" | "255 < n" "n \<le> 65535" | "65535 < n" "n \<le> 4294967295" | "4294967295 < n"
    by linarith
  then have "\<exists>w. (w, GetNeededUintSize n) \<in> set ladder \<and> (2::int) ^ w > n \<and>
             (\<forall>(w', name) \<in> set ladder. (2::int) ^ w' > n \<longrightarrow> w \<le> w')"
  proof cases
    case 1
    then show ?thesis
      by (intro exI[of _ 8]) (simp add: width_defs ladder_def)
  next
    case 2
    then show ?thesis
      by (intro exI[of _ 16]) (simp add: width_defs ladder_def)
  next
    case 3
    then show ?thesis
      by (intro exI[of _ 32]) (simp add: width_defs ladder_def)
  next
    case 4
    then show ?thesis using assms
      by (intro exI[of _ 64]) (simp add: width_defs ladder_def MaxInt_def)
  qed
  moreover have "GetNeededUintSize 0 = ''uint8''" "GetNeededUintSize 1 = ''uint8''"
    by (simp_all add: width_defs)
  ultimately show ?thesis by blast
qed

text \<open>The scenario of 300 states: the 16-bit width.\<close>

theorem GetNeededUintSize_smallest_witness:
  "(0::int) \<le> 300 \<and> 300 \<le> MaxInt \<and> GetNeededUintSize 300 = ''uint16'' \<and>
   (\<exists>w. (w, GetNeededUintSize 300) \<in> set ladder \<and> (2::int) ^ w > 300 \<and>
        (\<forall>(w', name) \<in> set ladder. (2::int) ^ w' > 300 \<longrightarrow> w \<le> w'))"
  using GetNeededUintSize_smallest [of 300] by (simp add: MaxInt_def width_defs)

text \<open>
  Claim C5: for every definition, \<open>_GetStates\<close> returns a sequence of state names without
  duplicates, sorted lexicographically, whose set is exactly the union of every Source entry
  and every Destination of all events; its first element, when there is one, is the smallest
  derived state name.
\<close>

theorem GetStates_sorted_union:
  "distinct (GetStates defn) \<and> sorted (GetStates defn) \<and>
   set (GetStates defn) = (\<Union>(n, e) \<in> set (Events defn). set (Source e) \<union> {Destination e}) \<and>
   (GetStates defn \<noteq> [] \<longrightarrow> (\<forall>s \<in> set (GetStates defn). GetStates defn ! 0 \<le> s))"
proof -
  have d: "distinct (GetStates defn)" and s: "sorted (GetStates defn)"
    by (simp_all add: GetStates_def)
  have e: "set (GetStates defn) = (\<Union>(n, e) \<in> set (Events defn). set (Source e) \<union> {Destination e})"
    unfolding set_GetStates stateSet_eq by auto
  have f: "\<forall>s \<in> set (GetStates defn). GetStates defn ! 0 \<le> s" if "GetStates defn \<noteq> []"
    using that s by (cases "GetStates defn") auto
  show ?thesis using d s e f by blast
qed

text \<open>The two-state scenario: \<open>idle\<close> has ordinal 0.\<close>

theorem GetStates_sorted_union_witness:
  "GetStates door_def \<noteq> [] \<and> GetStates door_def ! 0 = ''idle'' \<and>
   set (GetStates door_def) = {''idle'', ''running''} \<and>
   distinct (GetStates door_def) \<and> sorted (GetStates door_def) \<and>
   GetStates door_def ! 0 \<le> ''idle'' \<and> GetStates door_def ! 0 \<le> ''running''"
  using GetStates_sorted_union [of door_def]
  by (simp add: GetStates_door Events_door start_event_def stop_event_def)

section \<open>Failure and totality\<close>


lemma GenerateStateDefinition_empty:
  "GenerateStateDefinition T builder defn [] = Inl IndexOutOfRange"
  by (simp add: GenerateStateDefinition_def)

lemma GenerateStateDefinition_nonempty:
  "states \<noteq> [] \<Longrightarrow> \<exists>out. GenerateStateDefinition T builder defn states = Inr out"
  by (cases states) (simp_all add: GenerateStateDefinition_def Let_def)


lemma BuildText_some_events:
  assumes "Events defn \<noteq> []"
  shows "\<exists>out. BuildText T defn = Inr out"
proof -
  have "GetStates defn \<noteq> []"
    using assms by (simp add: GetStates_empty_iff)
  then obtain out where
    "GenerateStateDefinition T (GenerateHeader T [] defn) defn (GetStates defn) = Inr out"
    using GenerateStateDefinition_nonempty by blast
  then show ?thesis
    by (simp add: BuildText_def Let_def)
qed



text \<open>
  Claim C9: for every definition with a non-empty event map the sequence returned by
  \<open>_GetStates\<close> is non-empty, so \<open>states[0]\<close> in \<open>GenerateStateDefinition\<close> is in bounds
  and \<open>BuildText\<close> returns; with an empty event map \<open>states[0]\<close> is out of bounds.
\<close>

theorem states_index_0_in_bounds:
  "(Events defn \<noteq> [] \<longrightarrow>
      GetStates defn \<noteq> [] \<and> 0 < length (GetStates defn) \<and>
      (\<exists>out. GenerateStateDefinition T builder defn (GetStates defn) = Inr out) \<and>
      (\<exists>out. BuildText T defn = Inr out)) \<and>
   (Events defn = [] \<longrightarrow>
      length (GetStates defn) = 0 \<and>
      GenerateStateDefinition T builder defn (GetStates defn) = Inl IndexOutOfRange)"
proof (intro conjI impI)
  assume ne: "Events defn \<noteq> []"
  then show "GetStates defn \<noteq> []" by (simp add: GetStates_empty_iff)
  then show "0 < length (GetStates defn)" by simp
  show "\<exists>out. GenerateStateDefinition T builder defn (GetStates defn) = Inr out"
    using \<open>GetStates defn \<noteq> []\<close> by (rule GenerateStateDefinition_nonempty)
  show "\<exists>out. BuildText T defn = Inr out"
    using ne by (rule BuildText_some_events)
next
  assume "Events defn = []"
  then have e: "GetStates defn = []" by (simp add: GetStates_empty_iff)
  then show "length (GetStates defn) = 0" by simp
  show "GenerateStateDefinition T builder defn (GetStates defn) = Inl IndexOutOfRange"
    unfolding e by (rule GenerateStateDefinition_empty)
qed

text \<open>Both cases at concrete definitions.\<close>

theorem states_index_0_in_bounds_witness:
  "Events door_def \<noteq> [] \<and> 0 < length (GetStates door_def) \<and>
   (\<exists>out. GenerateStateDefinition plain_templates [] door_def (GetStates door_def) = Inr out) \<and>
   (\<exists>out. BuildText plain_templates door_def = Inr out) \<and>
   Events no_events_def = [] \<and>
   GenerateStateDefinition plain_templates [] no_events_def (GetStates no_events_def)
     = Inl IndexOutOfRange"
  using states_index_0_in_bounds [of door_def plain_templates "[]"]
    states_index_0_in_bounds [of no_events_def plain_templates "[]"]
  by (auto simp: Events_no_events Events_door)

section \<open>Mangling\<close>

lemma GetStateName_idle: "GetStateName ''idle'' = ''STATE_IDLE''"
  by code_simp

lemma GetStateName_IDLE: "GetStateName ''IDLE'' = ''STATE_IDLE''"
  by code_simp

lemma GetStateName_busy: "GetStateName ''busy'' = ''STATE_BUSY''"
  by code_simp

text \<open>
  Claim C10: \<open>_GetStateName\<close> is not injective. The names \<open>idle\<close> and \<open>IDLE\<close> differ
  only in letter case and mangle to the same symbol, and a definition that refers to both
  has two derived states whose emitted enum constants are the same \<open>STATE_IDLE\<close>.
\<close>

theorem GetStateName_collision:
  "''idle'' \<noteq> ''IDLE'' \<and> GetStateName ''idle'' = GetStateName ''IDLE'' \<and>
   \<not> inj GetStateName \<and>
   GetStates case_def = [''IDLE'', ''busy'', ''idle''] \<and>
   map GetStateName (GetStates case_def) = [''STATE_IDLE'', ''STATE_BUSY'', ''STATE_IDLE''] \<and>
   GenerateStateDefinition T builder case_def (GetStates case_def) =
     Inr (builder @ STATES_DEF T [AStr ''uint8'', AStr ''STATE_IDLE''] @
          ''STATE_BUSY'' @ [newline] @ ''STATE_IDLE'' @ [newline] @ [newline] @ '')'')"
proof -
  have eq: "GetStateName ''idle'' = GetStateName ''IDLE''"
    by (simp add: GetStateName_idle GetStateName_IDLE)
  have "\<not> inj GetStateName"
  proof
    assume "inj GetStateName"
    then have "''idle'' = ''IDLE''" using eq by (rule injD)
    then show False by simp
  qed
  moreover have "GenerateStateDefinition T builder case_def (GetStates case_def) =
     Inr (builder @ STATES_DEF T [AStr ''uint8'', AStr ''STATE_IDLE''] @
          ''STATE_BUSY'' @ [newline] @ ''STATE_IDLE'' @ [newline] @ [newline] @ '')'')"
    by (simp add: GetStates_case GenerateStateDefinition_def width_defs
        GetStateName_idle GetStateName_IDLE GetStateName_busy)
  ultimately show ?thesis
    by (simp add: GetStates_case GetStateName_idle GetStateName_IDLE GetStateName_busy)
qed

section \<open>The text of one event\<close>



lemma params_fold:
  "fold GenerateFSMEvent_param ps (sg, cp, l)
   = (sg @ map (\<lambda>p. ParamName p @ '' '' @ ParamType p) ps,
      cp @ map ParamName ps,
      l @ concat (map (\<lambda>p. [dquote] @ ParamName p @ [dquote] @ '', '' @ ParamName p @ '','') ps))"
  by (induction ps arbitrary: sg cp l) (simp_all add: GenerateFSMEvent_param_def)

lemma GenerateFSMEvent_params_eq:
  "GenerateFSMEvent_params defn event =
     (map (\<lambda>p. ParamName p @ '' '' @ ParamType p) (Params event),
      map ParamName (Params event),
      GenerateFSMEvent_lsb0 defn @
      concat (map (\<lambda>p. [dquote] @ ParamName p @ [dquote] @ '', '' @ ParamName p @ '','')
                (Params event)))"
  by (simp add: GenerateFSMEvent_params_def params_fold)

lemma GetStateName_fail: "GetStateName ''fail'' = ''STATE_FAIL''"
  by code_simp

lemma GetStateName_failed: "GetStateName ''failed'' = ''STATE_FAILED''"
  by code_simp

lemma GetStateName_running: "GetStateName ''running'' = ''STATE_RUNNING''"
  by code_simp



text \<open>
  Claim C4 says that the log message names the destination state of the transition. The
  code passes \<open>_GetStateName(eventName)\<close> to the message: for the event \<open>fail\<close> with
  destination \<open>failed\<close> the log text ends with \<open>User has transitioned to STATE_FAIL\<close>,
  while the symbol of the destination is \<open>STATE_FAILED\<close>.
\<close>

theorem log_message_names_event:
  "UseSLog job_def \<and>
   GenerateFSMEvent_logging job_def ''fail'' fail_event =
     ''slog.With('' @ [dquote] @ ''Start State'' @ [dquote] @ '', fsm.State,'' @
     [dquote] @ ''retryCount'' @ [dquote] @ '', retryCount,'' @
     [dquote] @ ''reason'' @ [dquote] @ '', reason,'' @
     '').Info('' @ [dquote] @ ''User has transitioned to STATE_FAIL'' @ [dquote] @ '')'' \<and>
   GetStateName (Destination fail_event) = ''STATE_FAILED''"
  by (simp add: GenerateFSMEvent_logging_def GenerateFSMEvent_params_eq GenerateFSMEvent_lsb0_def
      job_def_def fail_event_def GetStateName_fail GetStateName_failed)


section \<open>The order of the event blocks\<close>

lemma BuildText_events_builder:
  "fold (BuildText_visit T defn states) evs (i, builder @ written) =
     (fst (fold (BuildText_visit T defn states) evs (i, written)),
      builder @ snd (fold (BuildText_visit T defn states) evs (i, written)))"
proof (induction evs arbitrary: i written)
  case Nil
  then show ?case by simp
next
  case (Cons a evs)
  obtain n e where a: "a = (n, e)" by (cases a)
  have "BuildText_visit T defn states a (i, builder @ written) =
          (i + 1, builder @ (written @ EVENT T (GenerateFSMEvent_ti defn i n e)))"
    by (simp add: a BuildText_visit_def GenerateFSMEvent_def)
  moreover have "BuildText_visit T defn states a (i, written) =
          (i + 1, written @ EVENT T (GenerateFSMEvent_ti defn i n e))"
    by (simp add: a BuildText_visit_def GenerateFSMEvent_def)
  ultimately show ?case
    using Cons.IH [of "i + 1" "written @ EVENT T (GenerateFSMEvent_ti defn i n e)"] by simp
qed

lemma BuildText_same_prefix:
  assumes "same_definition d1 d2" and "Events d1 \<noteq> []"
  shows "\<exists>prefix.
           BuildText T d1 = Inr (prefix @ snd (BuildText_events T d1 (GetStates d1) (0, []))) \<and>
           BuildText T d2 = Inr (prefix @ snd (BuildText_events T d2 (GetStates d1) (0, [])))"
proof -
  have st: "GetStates d2 = GetStates d1"
    using assms(1) by (intro GetStates_order_independent) (simp add: same_definition_def)
  have hd: "GenerateHeader T [] d2 = GenerateHeader T [] d1"
    using assms(1) by (simp add: same_definition_def GenerateHeader_def)
  have "GetStates d1 \<noteq> []"
    using assms(2) by (simp add: GetStates_empty_iff)
  then obtain b where b: "GenerateStateDefinition T (GenerateHeader T [] d1) d1 (GetStates d1) = Inr b"
    using GenerateStateDefinition_nonempty by blast
  then have b2: "GenerateStateDefinition T (GenerateHeader T [] d1) d2 (GetStates d1) = Inr b"
    by (simp add: GenerateStateDefinition_def)
  define prefix where
    "prefix = GenerateLookup T (GenerateFSMDefinition T (GenerateInitalizer T b d1) d1) (GetStates d1)"
  have p2: "GenerateLookup T (GenerateFSMDefinition T (GenerateInitalizer T b d2) d2) (GetStates d1)
            = prefix"
    using assms(1)
    by (simp add: prefix_def same_definition_def GenerateFSMDefinition_def
        GenerateFSMDefinition_operands_def GenerateInitalizer_def)
  have split: "snd (BuildText_events T d states (0, prefix)) =
               prefix @ snd (BuildText_events T d states (0, []))" for d states
    using BuildText_events_builder [of T d states "Events d" 0 prefix "[]"]
    by (simp add: BuildText_events_def)
  have "BuildText T d1 = Inr (snd (BuildText_events T d1 (GetStates d1) (0, prefix)))"
    by (simp add: BuildText_def Let_def b prefix_def)
  moreover have "BuildText T d2 = Inr (snd (BuildText_events T d2 (GetStates d1) (0, prefix)))"
    by (simp add: BuildText_def Let_def st hd b2 p2)
  ultimately show ?thesis
    using split by auto
qed

text \<open>
  Claim C1 says that the event blocks come in the order of the sorted event names, each with
  its sorted position as ordinal. The loop of \<open>BuildText\<close> follows the traversal of the map
  instead: of two runs on the same definition (same fields, same entries), the one that
  visits \<open>start\<close> first writes \<open>start\<close> with ordinal 0 and then \<open>stop\<close> with ordinal 1, the
  one that visits \<open>stop\<close> first writes \<open>stop\<close> with ordinal 0 and then \<open>start\<close> with
  ordinal 1, after the same text for the other blocks.
\<close>

theorem BuildText_follows_traversal:
  "same_definition door_def door_def_stop_first \<and>
   EventsOK door_def \<and> EventsOK door_def_stop_first \<and>
   (\<exists>prefix.
      BuildText T door_def =
        Inr (prefix @ EVENT T (GenerateFSMEvent_ti door_def 0 ''start'' start_event)
                    @ EVENT T (GenerateFSMEvent_ti door_def 1 ''stop'' stop_event)) \<and>
      BuildText T door_def_stop_first =
        Inr (prefix @ EVENT T (GenerateFSMEvent_ti door_def 0 ''stop'' stop_event)
                    @ EVENT T (GenerateFSMEvent_ti door_def 1 ''start'' start_event))) \<and>
   GenerateFSMEvent_ti door_def 0 ''stop'' stop_event =
     [AStr ''stop'', AStr [], AStr ''Door'', AStr ''stop'', AStr [], AStr ''STATE_RUNNING'',
      AStr ''stop'', AStr ''%v'', AStr [], AInt 0, AStr ''stop'', AStr [], AStr ''STATE_IDLE'',
      AStr ''Door'', AStr ''stop'', AStr ''stop'', AInt 0]"
proof -
  have same: "same_definition door_def door_def_stop_first"
    by (auto simp: same_definition_def door_def_stop_first_def door_def_def)
  have ok: "EventsOK door_def" "EventsOK door_def_stop_first"
    by (simp_all add: EventsOK_def door_def_stop_first_def door_def_def)
  have ti: "GenerateFSMEvent_ti (door_def\<lparr>Events := evs\<rparr>) i n e = GenerateFSMEvent_ti door_def i n e"
    for evs i n e
    by (simp add: GenerateFSMEvent_ti_def GenerateFSMEvent_logging_def GenerateFSMEvent_params_def
        GenerateFSMEvent_lsb0_def door_def_def)
  have r1: "BuildText_events T door_def states (0, builder) =
     (2, builder @ EVENT T (GenerateFSMEvent_ti door_def 0 ''start'' start_event)
                 @ EVENT T (GenerateFSMEvent_ti door_def 1 ''stop'' stop_event))"
    for states builder
    by (simp add: BuildText_events_def BuildText_visit_def GenerateFSMEvent_def Events_door)
  have r2: "BuildText_events T door_def_stop_first states (0, builder) =
     (2, builder @ EVENT T (GenerateFSMEvent_ti door_def 0 ''stop'' stop_event)
                 @ EVENT T (GenerateFSMEvent_ti door_def 1 ''start'' start_event))"
    for states builder
    by (simp add: BuildText_events_def BuildText_visit_def GenerateFSMEvent_def
        door_def_stop_first_def ti)
  have r3: "GenerateFSMEvent_ti door_def 0 ''stop'' stop_event =
     [AStr ''stop'', AStr [], AStr ''Door'', AStr ''stop'', AStr [], AStr ''STATE_RUNNING'',
      AStr ''stop'', AStr ''%v'', AStr [], AInt 0, AStr ''stop'', AStr [], AStr ''STATE_IDLE'',
      AStr ''Door'', AStr ''stop'', AStr ''stop'', AInt 0]"
    by (simp add: GenerateFSMEvent_ti_def GenerateFSMEvent_logging_def GenerateFSMEvent_params_def
        GenerateFSMEvent_lsb0_def GenerateFSMEvent_validSrcs_def door_def_def stop_event_def
        GetStateName_running GetStateName_idle)
  obtain prefix where
    "BuildText T door_def =
       Inr (prefix @ snd (BuildText_events T door_def (GetStates door_def) (0, [])))"
    "BuildText T door_def_stop_first =
       Inr (prefix @ snd (BuildText_events T door_def_stop_first (GetStates door_def) (0, [])))"
    using BuildText_same_prefix [OF same, of T] by (auto simp: Events_door)
  then have "BuildText T door_def =
        Inr (prefix @ EVENT T (GenerateFSMEvent_ti door_def 0 ''start'' start_event)
                    @ EVENT T (GenerateFSMEvent_ti door_def 1 ''stop'' stop_event)) \<and>
      BuildText T door_def_stop_first =
        Inr (prefix @ EVENT T (GenerateFSMEvent_ti door_def 0 ''stop'' stop_event)
                    @ EVENT T (GenerateFSMEvent_ti door_def 1 ''start'' start_event))"
    by (simp add: r1 r2)
  then show ?thesis using same ok r3 by blast
qed

section \<open>The width of the machine type\<close>








section \<open>The generated guard\<close>





end
